theory Spec2Isabelle
  imports Complex_Main "HOL-Library.AList"
begin

section \<open>Python values, errors and dictionaries\<close>

text \<open>
  The two modules \<^verbatim>\<open>sentinel_s3/converter.py\<close> and \<^verbatim>\<open>scrawler/converter.py\<close> work on
  JSON-like Python values. A value is one of the constructors below; a dictionary is an
  association list whose order is the insertion order (the code builds \<^verbatim>\<open>OrderedDict\<close>s)
  and whose keys are strings. Strings are byte strings, as in Python 2, which
  \<^verbatim>\<open>tile.iteritems()\<close> of the scrawler module needs. A float is carried as a real number:
  the code never computes with one, only pyproj does, and pyproj is a parameter of the model.
\<close>

datatype error = IndexError | KeyError | TypeError | ValueError | AttributeError | RuntimeError

datatype pyval =
    PNone
  | PBool bool
  | PInt int
  | PFloat real
  | PStr string
  | PList "pyval list"
  | PTuple "pyval list"
  | PDict "(string \<times> pyval) list"

type_synonym dict = "(string \<times> pyval) list"

fun ebind :: "error + 'a \<Rightarrow> ('a \<Rightarrow> error + 'b) \<Rightarrow> error + 'b" where
  "ebind (Inl e) f = Inl e"
| "ebind (Inr v) f = f v"

text \<open>The results of a comprehension, in order; the first element that raises decides.\<close>

fun collect :: "(error + 'a) list \<Rightarrow> error + 'a list" where
  "collect [] = Inr []"
| "collect (Inl e # rs) = Inl e"
| "collect (Inr v # rs) = (case collect rs of Inl e \<Rightarrow> Inl e | Inr vs \<Rightarrow> Inr (v # vs))"

text \<open>Truth value of a Python object, as \<^verbatim>\<open>if x:\<close> tests it.\<close>

fun truthy :: "pyval \<Rightarrow> bool" where
  "truthy PNone = False"
| "truthy (PBool b) = b"
| "truthy (PInt i) = (i \<noteq> 0)"
| "truthy (PFloat x) = (x \<noteq> 0)"
| "truthy (PStr s) = (s \<noteq> [])"
| "truthy (PList xs) = (xs \<noteq> [])"
| "truthy (PTuple xs) = (xs \<noteq> [])"
| "truthy (PDict d) = (d \<noteq> [])"

text \<open>\<^verbatim>\<open>d[k]\<close>, \<^verbatim>\<open>d[k] = v\<close> (an existing key keeps its place, a new one goes last) and
  \<^verbatim>\<open>d.pop(k)\<close> on a dictionary.\<close>

definition dict_get :: "dict \<Rightarrow> string \<Rightarrow> error + pyval" where
  "dict_get d k = (case map_of d k of None \<Rightarrow> Inl KeyError | Some v \<Rightarrow> Inr v)"

definition dict_set :: "dict \<Rightarrow> string \<Rightarrow> pyval \<Rightarrow> dict" where
  "dict_set d k v = AList.update k v d"

definition dict_pop :: "dict \<Rightarrow> string \<Rightarrow> error + (pyval \<times> dict)" where
  "dict_pop d k = (case map_of d k of None \<Rightarrow> Inl KeyError | Some v \<Rightarrow> Inr (v, AList.delete k d))"

text \<open>\<^verbatim>\<open>v[k]\<close> with a string key on any value: only a dictionary can be subscripted so.\<close>

fun subscript :: "pyval \<Rightarrow> string \<Rightarrow> error + pyval" where
  "subscript (PDict d) k = dict_get d k"
| "subscript _ k = Inl TypeError"

text \<open>\<^verbatim>\<open>list(v)\<close>: the items of a sequence, the characters of a string, the keys of a
  dictionary; anything else is not iterable.\<close>

fun py_list :: "pyval \<Rightarrow> error + pyval list" where
  "py_list (PList xs) = Inr xs"
| "py_list (PTuple xs) = Inr xs"
| "py_list (PStr s) = Inr (map (\<lambda>c. PStr [c]) s)"
| "py_list (PDict d) = Inr (map (\<lambda>kv. PStr (fst kv)) d)"
| "py_list _ = Inl TypeError"

section \<open>Strings\<close>

definition is_upper :: "char \<Rightarrow> bool" where
  "is_upper c \<longleftrightarrow> 65 \<le> (of_char c :: nat) \<and> (of_char c :: nat) \<le> 90"

definition is_lower :: "char \<Rightarrow> bool" where
  "is_lower c \<longleftrightarrow> 97 \<le> (of_char c :: nat) \<and> (of_char c :: nat) \<le> 122"

definition is_digit :: "char \<Rightarrow> bool" where
  "is_digit c \<longleftrightarrow> 48 \<le> (of_char c :: nat) \<and> (of_char c :: nat) \<le> 57"

definition is_space :: "char \<Rightarrow> bool" where
  "is_space c \<longleftrightarrow> (of_char c :: nat) = 32 \<or> (9 \<le> (of_char c :: nat) \<and> (of_char c :: nat) \<le> 13)"

definition to_lower :: "char \<Rightarrow> char" where
  "to_lower c = (if is_upper c then char_of ((of_char c :: nat) + 32) else c)"

text \<open>\<^verbatim>\<open>s.lower()\<close>\<close>

definition lower :: "string \<Rightarrow> string" where
  "lower s = map to_lower s"

text \<open>\<^verbatim>\<open>s.split(sep)\<close> with a separator of one character; the result is never empty.\<close>

fun split :: "char \<Rightarrow> string \<Rightarrow> string list" where
  "split sep [] = [[]]"
| "split sep (c # cs) =
     (if c = sep then [] # split sep cs
      else (case split sep cs of [] \<Rightarrow> [[c]] | w # ws \<Rightarrow> (c # w) # ws))"

text \<open>\<^verbatim>\<open>v.split(sep)\<close> on any value: only a string has the method.\<close>

fun str_split :: "pyval \<Rightarrow> char \<Rightarrow> error + string list" where
  "str_split (PStr s) sep = Inr (split sep s)"
| "str_split _ sep = Inl AttributeError"

text \<open>\<^verbatim>\<open>s.replace(old, '')\<close> with \<^verbatim>\<open>old\<close> of one character.\<close>

definition remove_char :: "char \<Rightarrow> string \<Rightarrow> string" where
  "remove_char c s = filter (\<lambda>x. x \<noteq> c) s"

text \<open>\<^verbatim>\<open>int(s)\<close> of a string: surrounding white space, an optional sign, decimal digits;
  None stands for ValueError. (The digit separator \<^verbatim>\<open>_\<close> of Python 3.6 is not read.)\<close>

definition digits_value :: "string \<Rightarrow> int option" where
  "digits_value ds =
     (if ds \<noteq> [] \<and> list_all is_digit ds
      then Some (foldl (\<lambda>a c. 10 * a + (int (of_char c) - 48)) 0 ds)
      else None)"

definition strip :: "string \<Rightarrow> string" where
  "strip s = rev (dropWhile is_space (rev (dropWhile is_space s)))"

definition py_int :: "string \<Rightarrow> int option" where
  "py_int s =
     (case strip s of
        [] \<Rightarrow> None
      | c # cs \<Rightarrow>
          if c = CHR ''-'' then map_option uminus (digits_value cs)
          else if c = CHR ''+'' then digits_value cs
          else digits_value (c # cs))"

text \<open>\<^verbatim>\<open>str(n)\<close> of an integer.\<close>

fun show_nat :: "nat \<Rightarrow> string" where
  "show_nat n =
     (if n < 10 then [char_of (48 + n)]
      else show_nat (n div 10) @ [char_of (48 + n mod 10)])"

declare show_nat.simps [simp del]

definition show_int :: "int \<Rightarrow> string" where
  "show_int i = (if i < 0 then CHR ''-'' # show_nat (nat (- i)) else show_nat (nat i))"

text \<open>
  What \<^verbatim>\<open>'{0}'.format(v)\<close> and \<^verbatim>\<open>'%s' % v\<close> put for a value. Strings, integers, booleans
  and None are written out; how Python prints a float or a container is left to the
  parameter \<open>render\<close>.
\<close>

fun py_format :: "(pyval \<Rightarrow> string) \<Rightarrow> pyval \<Rightarrow> string" where
  "py_format render (PStr s) = s"
| "py_format render (PInt i) = show_int i"
| "py_format render PNone = ''None''"
| "py_format render (PBool b) = (if b then ''True'' else ''False'')"
| "py_format render v = render v"

text \<open>
  Modelled from the spec: \<^verbatim>\<open>pad\<close> of the external package \<^verbatim>\<open>wordpad\<close>, which is not part
  of the sources. The spec has the value "zero-padded to 2 digits": the text is filled on
  the left with \<^verbatim>\<open>0\<close> up to the width, and a longer text is kept whole. The callers below
  hand it the text form of a value that is not a string.
\<close>

definition pad :: "string \<Rightarrow> nat \<Rightarrow> string" where
  "pad s width = replicate (width - length s) CHR ''0'' @ s"

section \<open>camelcase_underscore\<close>

text \<open>
  \<^verbatim>\<open>re.sub('(.)([A-Z][a-z]+)', r'\1_\2', name)\<close>: scanning from the left, a character other
  than a newline, followed by a capital and at least one small letter, starts a match; the
  match takes every small letter that follows, and the scan goes on behind it.
\<close>

function sub_word :: "string \<Rightarrow> string" where
  "sub_word (c # u # l # rest) =
     (if c \<noteq> CHR 0x0A \<and> is_upper u \<and> is_lower l
      then c # CHR ''_'' # u # l # takeWhile is_lower rest @ sub_word (dropWhile is_lower rest)
      else c # sub_word (u # l # rest))"
| "sub_word [c, u] = [c, u]"
| "sub_word [c] = [c]"
| "sub_word [] = []"
  by pat_completeness auto
termination
proof (relation "measure length", goal_cases)
  case 1
  show ?case by simp
next
  case (2 c u l rest)
  have "length (dropWhile is_lower rest) \<le> length rest"
    by (rule length_dropWhile_le)
  then show ?case by simp
next
  case (3 c u l rest)
  show ?case by simp
qed

text \<open>\<^verbatim>\<open>re.sub('([a-z0-9])([A-Z])', r'\1_\2', s1)\<close>\<close>

fun sub_hump :: "string \<Rightarrow> string" where
  "sub_hump (a # b # rest) =
     (if (is_lower a \<or> is_digit a) \<and> is_upper b
      then a # CHR ''_'' # b # sub_hump rest
      else a # sub_hump (b # rest))"
| "sub_hump [a] = [a]"
| "sub_hump [] = []"

definition camelcase_underscore :: "string \<Rightarrow> string" where
  "camelcase_underscore name = lower (sub_hump (sub_word name))"

section \<open>Reprojection: epsg_code, convert_coordinates, to_latlon\<close>

text \<open>
  \<^verbatim>\<open>epsg_code(geojson)\<close>. Only the conversion \<^verbatim>\<open>int(urn[-1])\<close> sits in a \<^verbatim>\<open>try\<close>; reading
  \<^verbatim>\<open>geojson['crs']['properties']['name']\<close> and calling \<^verbatim>\<open>split\<close> on it can raise.
\<close>

definition epsg_code :: "pyval \<Rightarrow> error + int option" where
  "epsg_code geojson =
     (case geojson of
        PDict g \<Rightarrow>
          (case map_of g ''crs'' of
             None \<Rightarrow> Inr None
           | Some crs \<Rightarrow>
               ebind (subscript crs ''properties'') (\<lambda>props.
               ebind (subscript props ''name'') (\<lambda>name.
               ebind (str_split name CHR '':'') (\<lambda>urn.
                 if ''EPSG'' \<in> set urn then Inr (py_int (last urn)) else Inr None))))
      | _ \<Rightarrow> Inr None)"

fun seq_items :: "pyval \<Rightarrow> pyval list option" where
  "seq_items (PList xs) = Some xs"
| "seq_items (PTuple xs) = Some xs"
| "seq_items _ = None"

fun is_float :: "pyval \<Rightarrow> bool" where
  "is_float (PFloat x) = True"
| "is_float _ = False"

text \<open>\<^verbatim>\<open>except IndexError: pass\<close>, followed by the final \<^verbatim>\<open>return None\<close>.\<close>

fun catch_IndexError :: "error + pyval \<Rightarrow> error + pyval" where
  "catch_IndexError (Inl e) = (if e = IndexError then Inr PNone else Inl e)"
| "catch_IndexError (Inr v) = Inr v"

text \<open>The number of recursive calls a coordinate structure can cause: the termination
  measure of \<open>convert_coordinates\<close>.\<close>

fun rank :: "pyval \<Rightarrow> nat" where
  "rank (PList xs) =
     (case xs of [] \<Rightarrow> 0
      | x # _ \<Rightarrow> if seq_items x \<noteq> None then Suc (sum_list (map rank xs)) else 0)"
| "rank (PTuple xs) =
     (case xs of [] \<Rightarrow> 0
      | x # _ \<Rightarrow> if seq_items x \<noteq> None then Suc (sum_list (map rank xs)) else 0)"
| "rank _ = 0"

text \<open>
  \<^verbatim>\<open>convert_coordinates(coords, origin, wgs84)\<close>. The parameter \<open>transform\<close> is pyproj's
  \<^verbatim>\<open>transform(origin, wgs84, *coords)\<close>, which returns a tuple or raises. An element of a
  nested sequence goes through \<^verbatim>\<open>list(c)\<close> before the recursive call.
\<close>

function convert_coordinates ::
  "('p \<Rightarrow> 'p \<Rightarrow> pyval list \<Rightarrow> error + pyval list) \<Rightarrow> pyval \<Rightarrow> 'p \<Rightarrow> 'p \<Rightarrow> error + pyval" where
  "convert_coordinates transform coords origin wgs84 =
     (case seq_items coords of
        None \<Rightarrow> Inr PNone
      | Some cs \<Rightarrow>
          catch_IndexError
            (case cs of
               [] \<Rightarrow> Inl IndexError
             | c0 # _ \<Rightarrow>
                 if seq_items c0 \<noteq> None then
                   (case collect (map (\<lambda>c. case py_list c of
                                            Inl e \<Rightarrow> Inl e
                                          | Inr l \<Rightarrow> convert_coordinates transform (PList l) origin wgs84) cs) of
                      Inl e \<Rightarrow> Inl e
                    | Inr vs \<Rightarrow> Inr (PList vs))
                 else if is_float c0 then
                   (case transform origin wgs84 cs of
                      Inl e \<Rightarrow> Inl e
                    | Inr r \<Rightarrow> Inr (PList r))
                 else Inr PNone))"
  by pat_completeness auto
termination
proof (relation "measure (\<lambda>(t, c, o1, w). rank c)", goal_cases)
  case 1
  show ?case by simp
next
  case (2 transform coords origin wgs84 cs c0 rest c l)
  from 2 have "rank (PList l) \<le> rank c"
    by (cases c) (auto split: list.splits)
  moreover from 2 have "c \<in> set cs" by simp
  then have "rank c \<le> sum_list (map rank cs)"
    by (induction cs) auto
  moreover from 2 have "rank coords = Suc (sum_list (map rank cs))"
    by (cases coords) auto
  ultimately show ?case by simp
qed

declare convert_coordinates.simps [simp del]

definition wgs84_urn :: string where
  "wgs84_urn = ''urn:ogc:def:crs:EPSG:8.9:4326''"

text \<open>
  \<^verbatim>\<open>to_latlon(geojson, origin_espg=None)\<close>. The parameter \<open>Proj\<close> is pyproj's
  \<^verbatim>\<open>Proj(init=...)\<close>, which raises on a code it does not know; \<open>origin_espg\<close> is an
  integer or None. The dictionary is changed in place and returned: the model returns the
  changed value.
\<close>

definition to_latlon ::
  "(string \<Rightarrow> error + 'p) \<Rightarrow> ('p \<Rightarrow> 'p \<Rightarrow> pyval list \<Rightarrow> error + pyval list) \<Rightarrow>
     pyval \<Rightarrow> int option \<Rightarrow> error + pyval" where
  "to_latlon Proj transform geojson origin_espg =
     (case geojson of
        PDict g \<Rightarrow>
          ebind (case origin_espg of
                   None \<Rightarrow> epsg_code geojson
                 | Some n \<Rightarrow> if n \<noteq> 0 then Inr (Some n) else epsg_code geojson) (\<lambda>code.
          case code of
            None \<Rightarrow> Inr geojson
          | Some n \<Rightarrow>
              if n = 0 then Inr geojson
              else
                ebind (Proj (''epsg:'' @ show_int n)) (\<lambda>origin.
                ebind (Proj ''epsg:4326'') (\<lambda>wgs84.
                ebind (dict_get g ''coordinates'') (\<lambda>coords.
                ebind (convert_coordinates transform coords origin wgs84) (\<lambda>new_coords.
                  if truthy new_coords then
                    (let g1 = dict_set g ''coordinates'' new_coords in
                     case map_of g1 ''crs'' of
                       None \<Rightarrow>
                         Inr (PDict (dict_set g1 ''crs''
                           (PDict [(''type'', PStr ''name''),
                                   (''properties'', PDict [(''name'', PStr wgs84_urn)])])))
                     | Some crs \<Rightarrow>
                         ebind (subscript crs ''properties'') (\<lambda>props.
                           case (crs, props) of
                             (PDict c, PDict p) \<Rightarrow>
                               Inr (PDict (dict_set g1 ''crs''
                                 (PDict (dict_set c ''properties''
                                   (PDict (dict_set p ''name'' (PStr wgs84_urn)))))))
                           | _ \<Rightarrow> Inl TypeError))
                  else Inr geojson)))))
      | _ \<Rightarrow> Inr geojson)"

section \<open>The key extractor: get_tiles_list, metadata_to_dict\<close>

text \<open>An element of the parsed metadata document: tag, attributes, text (None when the
  element has none) and children in document order.\<close>

datatype xml = Element (xtag: string) (xattrib: "(string \<times> string) list")
  (xtext: "string option") (xchildren: "xml list")

fun descendants :: "xml \<Rightarrow> xml list" where
  "descendants (Element t a x cs) = concat (map (\<lambda>c. c # descendants c) cs)"

text \<open>\<^verbatim>\<open>el.findall('.//' + key)\<close>: the elements below \<^verbatim>\<open>el\<close>, at any depth, with that tag,
  in document order.\<close>

definition findall :: "xml \<Rightarrow> string \<Rightarrow> xml list" where
  "findall el key = filter (\<lambda>e. xtag e = key) (descendants el)"

text \<open>\<^verbatim>\<open>xs[0]\<close>\<close>

fun first :: "'a list \<Rightarrow> error + 'a" where
  "first [] = Inl IndexError"
| "first (x # xs) = Inr x"

fun tiles_loop :: "xml list \<Rightarrow> dict \<Rightarrow> error + dict" where
  "tiles_loop [] tiles = Inr tiles"
| "tiles_loop (el # els) tiles =
     ebind (first (findall el ''Granules'')) (\<lambda>g.
       case map_of (xattrib g) ''granuleIdentifier'' of
         None \<Rightarrow> Inl KeyError
       | Some name \<Rightarrow>
           (let name_parts = split CHR ''_'' name in
            if length name_parts < 2 then Inl IndexError
            else tiles_loop els
                   (dict_set tiles (name_parts ! (length name_parts - 2)) (PStr name))))"

definition get_tiles_list :: "xml \<Rightarrow> error + dict" where
  "get_tiles_list element = tiles_loop (xchildren element) []"

definition keys :: "string list" where
  "keys = [''SPACECRAFT_NAME'', ''PRODUCT_STOP_TIME'', ''Cloud_Coverage_Assessment'',
           ''PROCESSING_LEVEL'', ''PRODUCT_TYPE'', ''PROCESSING_BASELINE'',
           ''SENSING_ORBIT_NUMBER'', ''SENSING_ORBIT_DIRECTION'', ''PRODUCT_FORMAT'']"

text \<open>The body of the loop over \<open>keys\<close>: \<^verbatim>\<open>root.findall('.//' + key)[0].text\<close>, and None
  on IndexError (\<open>tree_root\<close> is \<^verbatim>\<open>root\<close>).\<close>

definition key_text :: "xml \<Rightarrow> string \<Rightarrow> pyval" where
  "key_text tree_root key =
     (case findall tree_root key of
        [] \<Rightarrow> PNone
      | e # _ \<Rightarrow> (case xtext e of None \<Rightarrow> PNone | Some s \<Rightarrow> PStr s))"

definition grab_keys :: "xml \<Rightarrow> dict" where
  "grab_keys tree_root = foldl (\<lambda>meta key. dict_set meta (lower key) (key_text tree_root key)) [] keys"

text \<open>\<^verbatim>\<open>float(v)\<close> and \<^verbatim>\<open>int(v)\<close>. How \<^verbatim>\<open>float\<close> reads a string is the parameter
  \<open>parse_float\<close> (None stands for ValueError).\<close>

fun py_float :: "(string \<Rightarrow> real option) \<Rightarrow> pyval \<Rightarrow> error + pyval" where
  "py_float parse_float (PStr s) =
     (case parse_float s of None \<Rightarrow> Inl ValueError | Some x \<Rightarrow> Inr (PFloat x))"
| "py_float parse_float (PFloat x) = Inr (PFloat x)"
| "py_float parse_float (PInt i) = Inr (PFloat (of_int i))"
| "py_float parse_float (PBool b) = Inr (PFloat (if b then 1 else 0))"
| "py_float parse_float _ = Inl TypeError"

fun py_int_of :: "pyval \<Rightarrow> error + pyval" where
  "py_int_of (PStr s) = (case py_int s of None \<Rightarrow> Inl ValueError | Some i \<Rightarrow> Inr (PInt i))"
| "py_int_of (PInt i) = Inr (PInt i)"
| "py_int_of (PFloat x) = Inr (PInt (if 0 \<le> x then \<lfloor>x\<rfloor> else \<lceil>x\<rceil>))"
| "py_int_of (PBool b) = Inr (PInt (if b then 1 else 0))"
| "py_int_of _ = Inl TypeError"

text \<open>The body of the loop over the bands, \<^verbatim>\<open>sentinel_s3/converter.py\<close> lines 143 to 147,
  on the text of the element.\<close>

definition band_name :: "string \<Rightarrow> string" where
  "band_name text =
     (let band = remove_char CHR ''B'' text in
      if length band = 1 then CHR ''B'' # pad band 2 else text)"

fun band_list_loop :: "xml list \<Rightarrow> error + pyval list" where
  "band_list_loop [] = Inr []"
| "band_list_loop (b # bs) =
     (case xtext b of
        None \<Rightarrow> Inl AttributeError
      | Some t \<Rightarrow> ebind (band_list_loop bs) (\<lambda>rest. Inr (PStr (band_name t) # rest)))"

text \<open>\<^verbatim>\<open>metadata_to_dict\<close> of \<^verbatim>\<open>sentinel_s3/converter.py\<close>, from the root element of the parsed
  document on.\<close>

definition metadata_to_dict :: "(string \<Rightarrow> real option) \<Rightarrow> xml \<Rightarrow> error + dict" where
  "metadata_to_dict parse_float tree_root =
     ebind (dict_pop (grab_keys tree_root) ''cloud_coverage_assessment'') (\<lambda>(cca, meta1).
     ebind (py_float parse_float cca) (\<lambda>f.
     let meta2 = dict_set meta1 ''product_cloud_coverage_assessment'' f in
     ebind (dict_get meta2 ''sensing_orbit_number'') (\<lambda>son.
     ebind (py_int_of son) (\<lambda>i.
     let meta3 = dict_set meta2 ''sensing_orbit_number'' i in
     ebind (first (findall tree_root ''Product_Organisation'')) (\<lambda>po.
     ebind (get_tiles_list po) (\<lambda>tiles.
     let meta4 = dict_set meta3 ''tiles'' (PDict tiles) in
     ebind (first (findall tree_root ''Band_List'')) (\<lambda>bands.
     ebind (band_list_loop (xchildren bands)) (\<lambda>band_list.
       Inr (dict_set meta4 ''band_list'' (PList band_list))))))))))"

text \<open>\<^verbatim>\<open>metadata_to_dict\<close> of \<^verbatim>\<open>scrawler/converter.py\<close>: the orbit number stays a text and
  the band names are copied as they are (a band element without text gives None).\<close>

definition scrawler_metadata_to_dict :: "(string \<Rightarrow> real option) \<Rightarrow> xml \<Rightarrow> error + dict" where
  "scrawler_metadata_to_dict parse_float tree_root =
     ebind (dict_pop (grab_keys tree_root) ''cloud_coverage_assessment'') (\<lambda>(cca, meta1).
     ebind (py_float parse_float cca) (\<lambda>f.
     let meta2 = dict_set meta1 ''product_cloud_coverage_assessment'' f in
     ebind (first (findall tree_root ''Product_Organisation'')) (\<lambda>po.
     ebind (get_tiles_list po) (\<lambda>tiles.
     let meta3 = dict_set meta2 ''tiles'' (PDict tiles) in
     ebind (first (findall tree_root ''Band_List'')) (\<lambda>bands.
       Inr (dict_set meta3 ''band_list''
              (PList (map (\<lambda>b. case xtext b of None \<Rightarrow> PNone | Some t \<Rightarrow> PStr t)
                        (xchildren bands)))))))))"

section \<open>The assembler: tile_metadata\<close>

definition s3_url :: string where
  "s3_url = ''http://sentinel-s2-l1c.s3.amazonaws.com''"

text \<open>
  \<^verbatim>\<open>tile_metadata(tile, product)\<close> changes both arguments in place, so the model returns,
  beside the result, the two dictionaries as the call leaves them, also when it raises.
  The parts of the function follow in the order of the source.

  Line 190: the grid code. The zone goes through \<open>pad\<close> in \<^verbatim>\<open>sentinel_s3\<close> and is
  formatted as it is in \<^verbatim>\<open>scrawler\<close>.
\<close>

definition grid_code :: "(pyval \<Rightarrow> string) \<Rightarrow> dict \<Rightarrow> error + string" where
  "grid_code render tile =
     ebind (dict_get tile ''utmZone'') (\<lambda>zone.
     ebind (dict_get tile ''latitudeBand'') (\<lambda>band.
     ebind (dict_get tile ''gridSquare'') (\<lambda>square.
       Inr (''T'' @ pad (py_format render zone) 2 @ py_format render band
              @ py_format render square))))"

definition scrawler_grid_code :: "(pyval \<Rightarrow> string) \<Rightarrow> dict \<Rightarrow> error + string" where
  "scrawler_grid_code render tile =
     ebind (dict_get tile ''utmZone'') (\<lambda>zone.
     ebind (dict_get tile ''latitudeBand'') (\<lambda>band.
     ebind (dict_get tile ''gridSquare'') (\<lambda>square.
       Inr (''T'' @ py_format render zone @ py_format render band
              @ py_format render square))))"

text \<open>Lines 192 to 200: the record is started with the tile name, the date and the
  thumbnail. Nothing has been changed yet when one of these raises.\<close>

definition start_meta :: "(pyval \<Rightarrow> string) \<Rightarrow> dict \<Rightarrow> dict \<Rightarrow> error + dict" where
  "start_meta render tile product =
     ebind (grid_code render tile) (\<lambda>grid.
     ebind (dict_get product ''tiles'') (\<lambda>tiles.
     ebind (subscript tiles grid) (\<lambda>tile_name.
     ebind (dict_get tile ''timestamp'') (\<lambda>timestamp.
     ebind (str_split timestamp CHR ''T'') (\<lambda>parts.
     ebind (dict_get tile ''path'') (\<lambda>path.
       Inr [(''tile_name'', tile_name),
            (''date'', PStr (hd parts)),
            (''thumbnail'', PStr (s3_url @ ''/'' @ py_format render path @ ''/preview.jp2''))]))))))"

definition scrawler_start_meta :: "(pyval \<Rightarrow> string) \<Rightarrow> dict \<Rightarrow> dict \<Rightarrow> error + dict" where
  "scrawler_start_meta render tile product =
     ebind (scrawler_grid_code render tile) (\<lambda>grid.
     ebind (dict_get product ''tiles'') (\<lambda>tiles.
     ebind (subscript tiles grid) (\<lambda>tile_name.
     ebind (dict_get tile ''timestamp'') (\<lambda>timestamp.
     ebind (str_split timestamp CHR ''T'') (\<lambda>parts.
       Inr [(''tile_name'', tile_name), (''date'', PStr (hd parts))])))))"

text \<open>Lines 207 to 210: the keys of the tile, renamed, then the fields of the product.\<close>

definition merge_fields :: "dict \<Rightarrow> dict \<Rightarrow> dict \<Rightarrow> dict" where
  "merge_fields meta tile product =
     foldl (\<lambda>m kv. dict_set m (fst kv) (snd kv))
       (foldl (\<lambda>m kv. dict_set m (camelcase_underscore (fst kv)) (snd kv)) meta tile)
       product"

text \<open>Line 213: one link for each band.\<close>

definition band_link :: "(pyval \<Rightarrow> string) \<Rightarrow> dict \<Rightarrow> pyval \<Rightarrow> error + pyval" where
  "band_link render meta b =
     ebind (dict_get meta ''path'') (\<lambda>path.
       Inr (PStr (s3_url @ ''/'' @ py_format render path @ ''/'' @ py_format render b @ ''.jp2'')))"

definition download_links :: "(pyval \<Rightarrow> string) \<Rightarrow> dict \<Rightarrow> pyval \<Rightarrow> error + pyval list" where
  "download_links render meta bands =
     ebind (py_list bands) (\<lambda>bs. collect (map (band_link render meta) bs))"

text \<open>
  Lines 220 to 223. \<^verbatim>\<open>to_latlon\<close> changes the geometry object itself, and that object is
  still held by the dictionary it was copied from: by the product when the product has the
  key, otherwise by the tile under the last key that is renamed to it. The model writes the
  new value back there. (Distinct entries of the inputs are taken to be distinct objects,
  as a JSON reader makes them.)
\<close>

definition write_back :: "string \<Rightarrow> pyval \<Rightarrow> dict \<Rightarrow> dict \<Rightarrow> dict \<times> dict" where
  "write_back key v tile product =
     (if map_of product key \<noteq> None then (tile, dict_set product key v)
      else (case filter (\<lambda>k. camelcase_underscore k = key) (map fst tile) of
              [] \<Rightarrow> (tile, product)
            | ks \<Rightarrow> (dict_set tile (last ks) v, product)))"

fun latlon_loop ::
  "(string \<Rightarrow> error + 'p) \<Rightarrow> ('p \<Rightarrow> 'p \<Rightarrow> pyval list \<Rightarrow> error + pyval list) \<Rightarrow>
     string list \<Rightarrow> dict \<Rightarrow> dict \<Rightarrow> dict \<Rightarrow> (error + dict) \<times> dict \<times> dict" where
  "latlon_loop Proj transform [] meta tile product = (Inr meta, tile, product)"
| "latlon_loop Proj transform (key # ks) meta tile product =
     (case map_of meta key of
        None \<Rightarrow> latlon_loop Proj transform ks meta tile product
      | Some geojson \<Rightarrow>
          (case to_latlon Proj transform geojson None of
             Inl e \<Rightarrow> (Inl e, tile, product)
           | Inr geojson' \<Rightarrow>
               (case write_back key geojson' tile product of
                  (tile', product') \<Rightarrow>
                    latlon_loop Proj transform ks (dict_set meta key geojson') tile' product')))"

text \<open>\<^verbatim>\<open>tile_metadata\<close> of \<^verbatim>\<open>sentinel_s3/converter.py\<close>.\<close>

definition tile_metadata ::
  "(string \<Rightarrow> error + 'p) \<Rightarrow> ('p \<Rightarrow> 'p \<Rightarrow> pyval list \<Rightarrow> error + pyval list) \<Rightarrow>
     (pyval \<Rightarrow> string) \<Rightarrow> dict \<Rightarrow> dict \<Rightarrow> (error + dict) \<times> dict \<times> dict" where
  "tile_metadata Proj transform render tile product =
     (case start_meta render tile product of
        Inl e \<Rightarrow> (Inl e, tile, product)
      | Inr meta \<Rightarrow>
          (let product1 = AList.delete ''tiles'' product in
           case dict_pop tile ''datastrip'' of
             Inl e \<Rightarrow> (Inl e, tile, product1)
           | Inr (datastrip, tile1) \<Rightarrow>
               (case dict_pop product1 ''band_list'' of
                  Inl e \<Rightarrow> (Inl e, tile1, product1)
                | Inr (bands, product2) \<Rightarrow>
                    (let meta1 = merge_fields meta tile1 product2 in
                     case download_links render meta1 bands of
                       Inl e \<Rightarrow> (Inl e, tile1, product2)
                     | Inr links \<Rightarrow>
                         latlon_loop Proj transform
                           [''tile_origin'', ''tile_geometry'', ''tile_data_geometry'']
                           (dict_set meta1 ''download_links'' (PDict [(''aws_s3'', PList links)]))
                           tile1 product2))))"

text \<open>\<^verbatim>\<open>tile_metadata\<close> of \<^verbatim>\<open>scrawler/converter.py\<close>: no padding of the zone, no thumbnail,
  no reprojection.\<close>

definition scrawler_tile_metadata ::
  "(pyval \<Rightarrow> string) \<Rightarrow> dict \<Rightarrow> dict \<Rightarrow> (error + dict) \<times> dict \<times> dict" where
  "scrawler_tile_metadata render tile product =
     (case scrawler_start_meta render tile product of
        Inl e \<Rightarrow> (Inl e, tile, product)
      | Inr meta \<Rightarrow>
          (let product1 = AList.delete ''tiles'' product in
           case dict_pop tile ''datastrip'' of
             Inl e \<Rightarrow> (Inl e, tile, product1)
           | Inr (datastrip, tile1) \<Rightarrow>
               (case dict_pop product1 ''band_list'' of
                  Inl e \<Rightarrow> (Inl e, tile1, product1)
                | Inr (bands, product2) \<Rightarrow>
                    (let meta1 = merge_fields meta tile1 product2 in
                     case download_links render meta1 bands of
                       Inl e \<Rightarrow> (Inl e, tile1, product2)
                     | Inr links \<Rightarrow>
                         (Inr (dict_set meta1 ''download_links'' (PDict [(''aws_s3'', PList links)])),
                          tile1, product2)))))"

section \<open>Notions used to state the properties\<close>





section \<open>Properties of the name normalizer\<close>

lemma to_lower_not_upper: "\<not> is_upper (to_lower c)"
  by (auto simp: to_lower_def is_upper_def)

lemma no_upper_lower: "\<forall>c\<in>set s. \<not> is_upper c \<Longrightarrow> lower s = s"
  by (induction s) (auto simp: lower_def to_lower_def)

lemma no_upper_sub_hump: "\<forall>c\<in>set s. \<not> is_upper c \<Longrightarrow> sub_hump s = s"
  by (induction s rule: sub_hump.induct) auto

lemma no_upper_sub_word: "\<forall>c\<in>set s. \<not> is_upper c \<Longrightarrow> sub_word s = s"
  by (induction s rule: sub_word.induct) auto

lemma no_upper_camelcase_underscore:
  "\<forall>c\<in>set s. \<not> is_upper c \<Longrightarrow> camelcase_underscore s = s"
  by (simp add: camelcase_underscore_def no_upper_sub_word no_upper_sub_hump no_upper_lower)

lemma camelcase_underscore_no_upper: "\<forall>c\<in>set (camelcase_underscore s). \<not> is_upper c"
  by (simp add: camelcase_underscore_def lower_def to_lower_not_upper)

text \<open>
  C9. \<open>camelcase_underscore\<close> is idempotent: applying it twice gives what applying it once
  gives, for every string; and a string without capital letters (an already underscored,
  lower-case name) comes back unchanged.
\<close>

theorem camelcase_underscore_idempotent:
  "camelcase_underscore (camelcase_underscore name) = camelcase_underscore name \<and>
   ((\<forall>c\<in>set name. \<not> is_upper c) \<longrightarrow> camelcase_underscore name = name)"
  using camelcase_underscore_no_upper [of name]
  by (simp add: no_upper_camelcase_underscore)

theorem camelcase_underscore_idempotent_witness:
  "list_all (\<lambda>c. \<not> is_upper c) ''tile_data_geometry'' \<and>
   camelcase_underscore ''tile_data_geometry'' = ''tile_data_geometry'' \<and>
   camelcase_underscore (camelcase_underscore ''tileDataGeometry'') = ''tile_data_geometry''"
proof -
  have a: "\<forall>c\<in>set ''tile_data_geometry''. \<not> is_upper c"
    by (simp add: is_upper_def)
  have b: "camelcase_underscore ''tileDataGeometry'' = ''tile_data_geometry''"
    by (simp add: camelcase_underscore_def lower_def to_lower_def is_upper_def is_lower_def
          is_digit_def char_of_def bit_0)
  from camelcase_underscore_idempotent [of "''tile_data_geometry''"] a
  have c: "camelcase_underscore ''tile_data_geometry'' = ''tile_data_geometry''"
    by blast
  from camelcase_underscore_idempotent [of "''tileDataGeometry''"] b
  have "camelcase_underscore (camelcase_underscore ''tileDataGeometry'') = ''tile_data_geometry''"
    by simp
  with a c show ?thesis by (simp add: list_all_iff)
qed

section \<open>Properties of the key extractor\<close>

lemma grab_keys_eq:
  "grab_keys r =
     [(''spacecraft_name'', key_text r ''SPACECRAFT_NAME''),
      (''product_stop_time'', key_text r ''PRODUCT_STOP_TIME''),
      (''cloud_coverage_assessment'', key_text r ''Cloud_Coverage_Assessment''),
      (''processing_level'', key_text r ''PROCESSING_LEVEL''),
      (''product_type'', key_text r ''PRODUCT_TYPE''),
      (''processing_baseline'', key_text r ''PROCESSING_BASELINE''),
      (''sensing_orbit_number'', key_text r ''SENSING_ORBIT_NUMBER''),
      (''sensing_orbit_direction'', key_text r ''SENSING_ORBIT_DIRECTION''),
      (''product_format'', key_text r ''PRODUCT_FORMAT'')]"
  by (simp add: grab_keys_def keys_def dict_set_def lower_def to_lower_def is_upper_def
        char_of_def bit_0)

lemma key_text_absent: "findall r key = [] \<Longrightarrow> key_text r key = PNone"
  by (simp add: key_text_def)

lemma key_text_cases: "key_text r key = PNone \<or> (\<exists>s. key_text r key = PStr s)"
  by (auto simp: key_text_def split: list.splits option.splits)

text \<open>
  C1 where the code leaves it. When the document has no \<^verbatim>\<open>Cloud_Coverage_Assessment\<close>
  element, the loop over the keys records None for it and \<^verbatim>\<open>float(None)\<close> of the next
  statement raises TypeError, in both modules and whatever \<^verbatim>\<open>float\<close> reads. When it has no
  \<^verbatim>\<open>SENSING_ORBIT_NUMBER\<close> element, \<^verbatim>\<open>metadata_to_dict\<close> of \<^verbatim>\<open>sentinel_s3\<close> raises as well
  (\<^verbatim>\<open>int(None)\<close>, unless the cloud coverage has raised before).
\<close>

theorem metadata_to_dict_absent_key_raises:
  "(findall r ''Cloud_Coverage_Assessment'' = [] \<longrightarrow>
      metadata_to_dict parse_float r = Inl TypeError \<and>
      scrawler_metadata_to_dict parse_float r = Inl TypeError) \<and>
   (findall r ''SENSING_ORBIT_NUMBER'' = [] \<longrightarrow>
      (\<exists>e. metadata_to_dict parse_float r = Inl e))"
proof (intro conjI impI)
  assume a: "findall r ''Cloud_Coverage_Assessment'' = []"
  show "metadata_to_dict parse_float r = Inl TypeError"
    by (simp add: metadata_to_dict_def grab_keys_eq dict_pop_def key_text_absent [OF a])
  show "scrawler_metadata_to_dict parse_float r = Inl TypeError"
    by (simp add: scrawler_metadata_to_dict_def grab_keys_eq dict_pop_def key_text_absent [OF a])
next
  assume a: "findall r ''SENSING_ORBIT_NUMBER'' = []"
  from key_text_cases [of r "''Cloud_Coverage_Assessment''"]
  show "\<exists>e. metadata_to_dict parse_float r = Inl e"
    by (auto simp: metadata_to_dict_def grab_keys_eq dict_pop_def dict_get_def dict_set_def
          key_text_absent [OF a] split: option.splits)
qed

theorem metadata_to_dict_absent_key_raises_witness:
  "findall (Element ''Product'' [] None
       [Element ''SPACECRAFT_NAME'' [] (Some ''Sentinel-2A'') [],
        Element ''SENSING_ORBIT_NUMBER'' [] (Some ''22'') [],
        Element ''Band_List'' [] None [Element ''BAND_NAME'' [] (Some ''B4'') []],
        Element ''Product_Organisation'' [] None []]) ''Cloud_Coverage_Assessment'' = [] \<and>
   metadata_to_dict (\<lambda>s. None)
     (Element ''Product'' [] None
       [Element ''SPACECRAFT_NAME'' [] (Some ''Sentinel-2A'') [],
        Element ''SENSING_ORBIT_NUMBER'' [] (Some ''22'') [],
        Element ''Band_List'' [] None [Element ''BAND_NAME'' [] (Some ''B4'') []],
        Element ''Product_Organisation'' [] None []]) = Inl TypeError \<and>
   findall (Element ''Product'' [] None
       [Element ''Cloud_Coverage_Assessment'' [] (Some ''12.5'') [],
        Element ''Band_List'' [] None [Element ''BAND_NAME'' [] (Some ''B4'') []],
        Element ''Product_Organisation'' [] None []]) ''SENSING_ORBIT_NUMBER'' = [] \<and>
   (\<exists>e. metadata_to_dict (\<lambda>s. if s = ''12.5'' then Some (25 / 2) else None)
     (Element ''Product'' [] None
       [Element ''Cloud_Coverage_Assessment'' [] (Some ''12.5'') [],
        Element ''Band_List'' [] None [Element ''BAND_NAME'' [] (Some ''B4'') []],
        Element ''Product_Organisation'' [] None []]) = Inl e)"
proof -
  let ?d1 = "Element ''Product'' [] None
       [Element ''SPACECRAFT_NAME'' [] (Some ''Sentinel-2A'') [],
        Element ''SENSING_ORBIT_NUMBER'' [] (Some ''22'') [],
        Element ''Band_List'' [] None [Element ''BAND_NAME'' [] (Some ''B4'') []],
        Element ''Product_Organisation'' [] None []]"
  let ?d2 = "Element ''Product'' [] None
       [Element ''Cloud_Coverage_Assessment'' [] (Some ''12.5'') [],
        Element ''Band_List'' [] None [Element ''BAND_NAME'' [] (Some ''B4'') []],
        Element ''Product_Organisation'' [] None []]"
  have h1: "findall ?d1 ''Cloud_Coverage_Assessment'' = []"
    by (simp add: findall_def)
  have h2: "findall ?d2 ''SENSING_ORBIT_NUMBER'' = []"
    by (simp add: findall_def)
  from metadata_to_dict_absent_key_raises [of ?d1 "\<lambda>s. None"] h1
  have c1: "metadata_to_dict (\<lambda>s. None) ?d1 = Inl TypeError"
    by blast
  from metadata_to_dict_absent_key_raises
         [of ?d2 "\<lambda>s. if s = ''12.5'' then Some (25 / 2) else None"] h2
  have c2: "\<exists>e. metadata_to_dict (\<lambda>s. if s = ''12.5'' then Some (25 / 2) else None) ?d2 = Inl e"
    by blast
  from h1 c1 h2 c2 show ?thesis by blast
qed

lemma band_list_loop_map:
  "\<forall>b\<in>set bs. xtext b \<noteq> None \<Longrightarrow>
   band_list_loop bs = Inr (map (\<lambda>b. PStr (band_name (the (xtext b)))) bs)"
  by (induction bs) auto

text \<open>
  C3, as the code has it. The band-list pass of \<open>metadata_to_dict\<close> gives each band text
  \<open>band_name\<close> of it. When the text without its letters \<^verbatim>\<open>B\<close> is one character \<open>c\<close>,
  whatever that character is, the name is \<^verbatim>\<open>B0\<close> followed by \<open>c\<close>: so \<^verbatim>\<open>B\<close> and one digit
  becomes \<^verbatim>\<open>B\<close> and the digit padded to two. When it is empty or longer, the text is kept.
\<close>

theorem band_name_pads_single_character:
  "(remove_char CHR ''B'' t = [c] \<longrightarrow> band_name t = [CHR ''B'', CHR ''0'', c]) \<and>
   (is_digit d \<longrightarrow> band_name [CHR ''B'', d] = [CHR ''B'', CHR ''0'', d]) \<and>
   (length (remove_char CHR ''B'' t) \<noteq> 1 \<longrightarrow> band_name t = t) \<and>
   ((\<forall>b\<in>set bs. xtext b \<noteq> None) \<longrightarrow>
      band_list_loop bs = Inr (map (\<lambda>b. PStr (band_name (the (xtext b)))) bs))"
proof -
  have "is_digit d \<Longrightarrow> d \<noteq> CHR ''B''"
    by (auto simp: is_digit_def)
  then show ?thesis
    by (auto simp: band_name_def remove_char_def pad_def band_list_loop_map)
qed

theorem band_name_pads_single_character_witness:
  "band_name ''B2'' = ''B02'' \<and> band_name ''B8A'' = ''B8A'' \<and> band_name ''B10'' = ''B10'' \<and>
   band_list_loop [Element ''BAND_NAME'' [] (Some ''B4'') []] = Inr [PStr ''B04'']"
proof -
  have d: "is_digit CHR ''2''" by (simp add: is_digit_def)
  have l1: "length (remove_char CHR ''B'' ''B8A'') \<noteq> 1" by (simp add: remove_char_def)
  have l2: "length (remove_char CHR ''B'' ''B10'') \<noteq> 1" by (simp add: remove_char_def)
  have r: "remove_char CHR ''B'' ''B4'' = [CHR ''4'']" by (simp add: remove_char_def)
  have x: "\<forall>b\<in>set [Element ''BAND_NAME'' [] (Some ''B4'') []]. xtext b \<noteq> None" by simp
  from band_name_pads_single_character [of "''B8A''" "CHR ''A''" "CHR ''2''" "[]"] d l1
  have 1: "band_name ''B2'' = ''B02''" and 2: "band_name ''B8A'' = ''B8A''" by simp_all
  from band_name_pads_single_character [of "''B10''" "CHR ''A''" "CHR ''2''" "[]"] l2
  have 3: "band_name ''B10'' = ''B10''" by simp
  from band_name_pads_single_character
         [of "''B4''" "CHR ''4''" "CHR ''2''" "[Element ''BAND_NAME'' [] (Some ''B4'') []]"] r x
  have "band_list_loop [Element ''BAND_NAME'' [] (Some ''B4'') []] = Inr [PStr ''B04'']"
    by simp
  with 1 2 3 show ?thesis by simp
qed

theorem band_name_BA_counterexample:
  "band_name ''BA'' = ''B0A'' \<and> band_name ''BA'' \<noteq> ''BA''"
  by (simp add: band_name_def remove_char_def pad_def)

section \<open>Properties of the assembler and of the reprojection\<close>

text \<open>
  C4 on a tile of zone 7: \<^verbatim>\<open>scrawler\<close> formats the zone as it is and gives \<^verbatim>\<open>T7SAB\<close>, where
  \<^verbatim>\<open>sentinel_s3\<close> pads it and gives \<^verbatim>\<open>T07SAB\<close>; on the zone 32 of the spec both give
  \<^verbatim>\<open>T32TQM\<close>.
\<close>

theorem scrawler_grid_code_not_padded:
  "scrawler_grid_code render
     [(''utmZone'', PInt 7), (''latitudeBand'', PStr ''S''), (''gridSquare'', PStr ''AB'')]
     = Inr ''T7SAB'' \<and>
   grid_code render
     [(''utmZone'', PInt 7), (''latitudeBand'', PStr ''S''), (''gridSquare'', PStr ''AB'')]
     = Inr ''T07SAB'' \<and>
   scrawler_grid_code render
     [(''utmZone'', PInt 32), (''latitudeBand'', PStr ''T''), (''gridSquare'', PStr ''QM'')]
     = Inr ''T32TQM'' \<and>
   grid_code render
     [(''utmZone'', PInt 32), (''latitudeBand'', PStr ''T''), (''gridSquare'', PStr ''QM'')]
     = Inr ''T32TQM''"
  by (simp add: grid_code_def scrawler_grid_code_def dict_get_def show_int_def show_nat.simps
        pad_def char_of_def bit_0)

text \<open>
  C6 on coordinates whose second element is a number: \<^verbatim>\<open>list(5)\<close> raises TypeError, which
  \<^verbatim>\<open>except IndexError\<close> does not catch, whatever pyproj does.
\<close>

theorem convert_coordinates_raises:
  "convert_coordinates transform (PList [PList [], PInt 5]) origin wgs84 = Inl TypeError \<and>
   convert_coordinates (\<lambda>p q cs. Inr cs) (PList [PList [PFloat 1, PFloat 2], PInt 5]) origin wgs84
     = Inl TypeError \<and>
   (\<exists>e. convert_coordinates transform (PList [PList [PFloat 1, PFloat 2], PInt 5]) origin wgs84
     = Inl e)"
  by (simp add: convert_coordinates.simps split: sum.splits)

lemma start_meta_miss:
  "grid_code render tile = Inr grid \<Longrightarrow> dict_get product ''tiles'' = Inr (PDict tiles) \<Longrightarrow>
   map_of tiles grid = None \<Longrightarrow> start_meta render tile product = Inl KeyError"
  by (simp add: start_meta_def dict_get_def)

lemma scrawler_start_meta_miss:
  "scrawler_grid_code render tile = Inr grid \<Longrightarrow> dict_get product ''tiles'' = Inr (PDict tiles) \<Longrightarrow>
   map_of tiles grid = None \<Longrightarrow> scrawler_start_meta render tile product = Inl KeyError"
  by (simp add: scrawler_start_meta_def dict_get_def)

text \<open>
  C10. When the grid code computed from the tile is not a key of \<^verbatim>\<open>product['tiles']\<close>,
  \<open>tile_metadata\<close> raises KeyError, and it does so before anything is popped: both
  dictionaries are left exactly as they were passed in. The same holds for the scrawler
  module with its own grid code.
\<close>

theorem tile_metadata_lookup_miss:
  assumes "dict_get product ''tiles'' = Inr (PDict tiles)"
  shows "(grid_code render tile = Inr grid \<and> map_of tiles grid = None \<longrightarrow>
            tile_metadata Proj transform render tile product = (Inl KeyError, tile, product)) \<and>
         (scrawler_grid_code render tile = Inr sgrid \<and> map_of tiles sgrid = None \<longrightarrow>
            scrawler_tile_metadata render tile product = (Inl KeyError, tile, product))"
  using assms
  by (simp add: tile_metadata_def scrawler_tile_metadata_def start_meta_miss
        scrawler_start_meta_miss)

theorem tile_metadata_lookup_miss_witness:
  "tile_metadata (\<lambda>s. Inr s) (\<lambda>p q cs. Inr cs) (\<lambda>v. [])
     [(''utmZone'', PInt 7), (''latitudeBand'', PStr ''S''), (''gridSquare'', PStr ''AB''),
      (''timestamp'', PStr ''2016-01-01T10:20:23.456Z''), (''path'', PStr ''tiles/7/S/AB/2016/1/1/0''),
      (''datastrip'', PDict [])]
     [(''spacecraft_name'', PStr ''Sentinel-2A''),
      (''tiles'', PDict [(''T32TQM'', PStr ''S2A_OPER_MSI_L1C_TL_SGS__20160101T102023_A002701_T32TQM_N02.01'')]),
      (''band_list'', PList [PStr ''B04''])]
   = (Inl KeyError,
      [(''utmZone'', PInt 7), (''latitudeBand'', PStr ''S''), (''gridSquare'', PStr ''AB''),
       (''timestamp'', PStr ''2016-01-01T10:20:23.456Z''), (''path'', PStr ''tiles/7/S/AB/2016/1/1/0''),
       (''datastrip'', PDict [])],
      [(''spacecraft_name'', PStr ''Sentinel-2A''),
       (''tiles'', PDict [(''T32TQM'', PStr ''S2A_OPER_MSI_L1C_TL_SGS__20160101T102023_A002701_T32TQM_N02.01'')]),
       (''band_list'', PList [PStr ''B04''])]) \<and>
   scrawler_tile_metadata (\<lambda>v. [])
     [(''utmZone'', PInt 7), (''latitudeBand'', PStr ''S''), (''gridSquare'', PStr ''AB''),
      (''timestamp'', PStr ''2016-01-01T10:20:23.456Z''), (''path'', PStr ''tiles/7/S/AB/2016/1/1/0''),
      (''datastrip'', PDict [])]
     [(''spacecraft_name'', PStr ''Sentinel-2A''),
      (''tiles'', PDict [(''T32TQM'', PStr ''S2A_OPER_MSI_L1C_TL_SGS__20160101T102023_A002701_T32TQM_N02.01'')]),
      (''band_list'', PList [PStr ''B04''])]
   = (Inl KeyError,
      [(''utmZone'', PInt 7), (''latitudeBand'', PStr ''S''), (''gridSquare'', PStr ''AB''),
       (''timestamp'', PStr ''2016-01-01T10:20:23.456Z''), (''path'', PStr ''tiles/7/S/AB/2016/1/1/0''),
       (''datastrip'', PDict [])],
      [(''spacecraft_name'', PStr ''Sentinel-2A''),
       (''tiles'', PDict [(''T32TQM'', PStr ''S2A_OPER_MSI_L1C_TL_SGS__20160101T102023_A002701_T32TQM_N02.01'')]),
       (''band_list'', PList [PStr ''B04''])])"
proof -
  let ?tile = "[(''utmZone'', PInt 7), (''latitudeBand'', PStr ''S''), (''gridSquare'', PStr ''AB''),
      (''timestamp'', PStr ''2016-01-01T10:20:23.456Z''), (''path'', PStr ''tiles/7/S/AB/2016/1/1/0''),
      (''datastrip'', PDict [])]"
  let ?tiles = "[(''T32TQM'', PStr ''S2A_OPER_MSI_L1C_TL_SGS__20160101T102023_A002701_T32TQM_N02.01'')]"
  let ?product = "[(''spacecraft_name'', PStr ''Sentinel-2A''), (''tiles'', PDict ?tiles),
      (''band_list'', PList [PStr ''B04''])]"
  have t: "dict_get ?product ''tiles'' = Inr (PDict ?tiles)"
    by (simp add: dict_get_def)
  have g: "grid_code (\<lambda>v. []) ?tile = Inr ''T07SAB''"
    by (simp add: grid_code_def dict_get_def show_int_def show_nat.simps pad_def char_of_def
          bit_0)
  have sg: "scrawler_grid_code (\<lambda>v. []) ?tile = Inr ''T7SAB''"
    by (simp add: scrawler_grid_code_def dict_get_def show_int_def show_nat.simps char_of_def
          bit_0)
  have m: "map_of ?tiles ''T07SAB'' = None" "map_of ?tiles ''T7SAB'' = None"
    by simp_all
  from tile_metadata_lookup_miss [OF t, of "\<lambda>v. []" ?tile "''T07SAB''" "\<lambda>s. Inr s"
      "\<lambda>p q cs. Inr cs" "''T7SAB''"] g sg m
  show ?thesis by blast
qed

lemma epsg_code_no_code:
  assumes "map_of g ''crs'' = None \<or>
     (\<exists>c p name. map_of g ''crs'' = Some (PDict c) \<and> map_of c ''properties'' = Some (PDict p) \<and>
        map_of p ''name'' = Some (PStr name) \<and>
        (''EPSG'' \<notin> set (split CHR '':'' name) \<or>
         py_int (last (split CHR '':'' name)) = None \<or>
         py_int (last (split CHR '':'' name)) = Some 0))"
  shows "epsg_code (PDict g) = Inr None \<or> epsg_code (PDict g) = Inr (Some 0)"
  using assms by (auto simp: epsg_code_def dict_get_def)

text \<open>
  C7, as the code has it. Without an explicit code, a geometry whose \<^verbatim>\<open>crs\<close> member is
  absent, or is well formed (\<^verbatim>\<open>crs.properties.name\<close> is a string) and names no EPSG code (no
  segment \<^verbatim>\<open>EPSG\<close>, or a last segment that is not an integer, or is 0), is returned by
  \<open>to_latlon\<close> unchanged, and nothing is raised.
\<close>

theorem to_latlon_no_code_unchanged:
  assumes "origin_espg = None \<or> origin_espg = Some 0"
      and "map_of g ''crs'' = None \<or>
     (\<exists>c p name. map_of g ''crs'' = Some (PDict c) \<and> map_of c ''properties'' = Some (PDict p) \<and>
        map_of p ''name'' = Some (PStr name) \<and>
        (''EPSG'' \<notin> set (split CHR '':'' name) \<or>
         py_int (last (split CHR '':'' name)) = None \<or>
         py_int (last (split CHR '':'' name)) = Some 0))"
  shows "to_latlon Proj transform (PDict g) origin_espg = Inr (PDict g)"
  using assms(1) epsg_code_no_code [OF assms(2)]
  by (auto simp: to_latlon_def)

theorem to_latlon_no_code_unchanged_witness:
  "to_latlon (\<lambda>s. Inr s) (\<lambda>p q cs. Inr cs)
     (PDict [(''type'', PStr ''Point''), (''coordinates'', PList [PFloat 1, PFloat 2])]) None
   = Inr (PDict [(''type'', PStr ''Point''), (''coordinates'', PList [PFloat 1, PFloat 2])]) \<and>
   to_latlon (\<lambda>s. Inr s) (\<lambda>p q cs. Inr cs)
     (PDict [(''type'', PStr ''Point''), (''coordinates'', PList [PFloat 1, PFloat 2]),
             (''crs'', PDict [(''type'', PStr ''name''),
                (''properties'', PDict [(''name'', PStr ''urn:ogc:def:crs:OGC:1.3:CRS84'')])])]) None
   = Inr (PDict [(''type'', PStr ''Point''), (''coordinates'', PList [PFloat 1, PFloat 2]),
             (''crs'', PDict [(''type'', PStr ''name''),
                (''properties'', PDict [(''name'', PStr ''urn:ogc:def:crs:OGC:1.3:CRS84'')])])])"
proof -
  let ?g1 = "[(''type'', PStr ''Point''), (''coordinates'', PList [PFloat 1, PFloat 2])]"
  let ?p = "[(''name'', PStr ''urn:ogc:def:crs:OGC:1.3:CRS84'')]"
  let ?c = "[(''type'', PStr ''name''), (''properties'', PDict ?p)]"
  let ?g2 = "[(''type'', PStr ''Point''), (''coordinates'', PList [PFloat 1, PFloat 2]),
             (''crs'', PDict ?c)]"
  have 1: "map_of ?g1 ''crs'' = None" by simp
  have s: "''EPSG'' \<notin> set (split CHR '':'' ''urn:ogc:def:crs:OGC:1.3:CRS84'')" by simp
  have 2: "map_of ?g2 ''crs'' = Some (PDict ?c) \<and> map_of ?c ''properties'' = Some (PDict ?p) \<and>
        map_of ?p ''name'' = Some (PStr ''urn:ogc:def:crs:OGC:1.3:CRS84'')" by simp
  from to_latlon_no_code_unchanged [of None ?g1 "\<lambda>s. Inr s" "\<lambda>p q cs. Inr cs"] 1
  have a: "to_latlon (\<lambda>s. Inr s) (\<lambda>p q cs. Inr cs) (PDict ?g1) None = Inr (PDict ?g1)"
    by blast
  from 2 s have "\<exists>c p name. map_of ?g2 ''crs'' = Some (PDict c) \<and>
        map_of c ''properties'' = Some (PDict p) \<and> map_of p ''name'' = Some (PStr name) \<and>
        (''EPSG'' \<notin> set (split CHR '':'' name) \<or>
         py_int (last (split CHR '':'' name)) = None \<or>
         py_int (last (split CHR '':'' name)) = Some 0)"
    by blast
  with to_latlon_no_code_unchanged [of None ?g2 "\<lambda>s. Inr s" "\<lambda>p q cs. Inr cs"]
  have b: "to_latlon (\<lambda>s. Inr s) (\<lambda>p q cs. Inr cs) (PDict ?g2) None = Inr (PDict ?g2)"
    by blast
  from a b show ?thesis by blast
qed

text \<open>A \<^verbatim>\<open>crs\<close> member of another shape raises: here it is null.\<close>

theorem to_latlon_null_crs_counterexample:
  "to_latlon (\<lambda>s. Inr s) (\<lambda>p q cs. Inr cs)
     (PDict [(''type'', PStr ''Point''), (''coordinates'', PList [PFloat 1, PFloat 2]),
             (''crs'', PNone)]) None = Inl TypeError"
  by (simp add: to_latlon_def epsg_code_def)

section \<open>Properties of convert_coordinates and to_latlon\<close>

lemma collect_map_Inr:
  "collect (map f cs) = Inr vs \<Longrightarrow> list_all2 (\<lambda>c v. f c = Inr v) cs vs"
proof (induction cs arbitrary: vs)
  case Nil
  then show ?case by simp
next
  case (Cons c cs)
  then show ?case
    by (cases "f c") (auto split: sum.splits)
qed






















lemma ebind_Inr: "ebind x f = Inr r \<Longrightarrow> \<exists>v. x = Inr v \<and> f v = Inr r"
  by (cases x) simp_all


lemma map_of_dict_set: "map_of (dict_set d k v) k' = (if k' = k then Some v else map_of d k')"
  by (simp add: dict_set_def update_conv')



lemma dict_get_dict_set:
  "dict_get (dict_set d k v) k' = (if k' = k then Inr v else dict_get d k')"
  by (simp add: dict_get_def map_of_dict_set)










section \<open>Properties of the download links\<close>














section \<open>Absent keys that stay None\<close>

lemma metadata_to_dict_result:
  assumes "metadata_to_dict parse_float r = Inr meta"
  shows "\<exists>f i tiles band_list.
           meta = dict_set (dict_set (dict_set (dict_set
                    (AList.delete ''cloud_coverage_assessment'' (grab_keys r))
                    ''product_cloud_coverage_assessment'' f)
                    ''sensing_orbit_number'' i)
                    ''tiles'' tiles)
                    ''band_list'' band_list"
  using assms
  unfolding metadata_to_dict_def dict_pop_def
  by (auto simp: Let_def split: option.splits dest!: ebind_Inr)

text \<open>When \<open>metadata_to_dict\<close> returns, each of the seven keys that are not converted is
  recorded as None when the document has no such element.\<close>

lemma metadata_to_dict_optional_absent:
  assumes ret: "metadata_to_dict parse_float r = Inr meta"
      and key: "key \<in> {''SPACECRAFT_NAME'', ''PRODUCT_STOP_TIME'', ''PROCESSING_LEVEL'',
                        ''PRODUCT_TYPE'', ''PROCESSING_BASELINE'', ''SENSING_ORBIT_DIRECTION'',
                        ''PRODUCT_FORMAT''}"
      and absent: "findall r key = []"
  shows "map_of meta (lower key) = Some PNone"
proof -
  from metadata_to_dict_result [OF ret] obtain f i tiles band_list where
    meta: "meta = dict_set (dict_set (dict_set (dict_set
                    (AList.delete ''cloud_coverage_assessment'' (grab_keys r))
                    ''product_cloud_coverage_assessment'' f)
                    ''sensing_orbit_number'' i)
                    ''tiles'' tiles)
                    ''band_list'' band_list"
    by blast
  from key absent show ?thesis
    unfolding meta grab_keys_eq
    by (auto simp: map_of_dict_set key_text_absent lower_def to_lower_def is_upper_def
          char_of_def bit_0)
qed

end
